theory Spec2Isabelle
  imports Main "HOL-Library.Sublist"
begin

section \<open>Errors and call outcomes\<close>

text \<open>
  Byte slices and Go strings are both modelled as \<open>string\<close> (a list of 8-bit characters);
  the conversions \<open>string(key)\<close> and \<open>[]byte(s)\<close> of the source are then the identity.
\<close>

type_synonym bytes = string

text \<open>
  The error values of the package. The sentinels declared with \<open>errors.New\<close> are
  constructors; \<open>Errorf\<close> is an error made on the spot from a message alone;
  \<open>Wrap e msg\<close> is an error that carries \<open>e\<close> as its cause and has the message \<open>msg\<close>
  (what \<open>fmt.Errorf\<close> with \<open>%w\<close> and \<open>errors.Wrap\<close> on a non-nil error build).
  \<open>SqlError\<close>, \<open>JsonError\<close>, \<open>KeySizeError\<close>, \<open>AuthError\<close> and \<open>RandError\<close> stand for
  the errors of the database driver, the JSON library, \<open>aes.NewCipher\<close>, \<open>gcm.Open\<close> and
  the random source.
\<close>

datatype error =
    ErrNoConnection
  | ErrHaveEncryptedAndUnencrypted
  | ErrHaveEncryptedWithNoKey
  | ErrNoRows
  | ErrObjectNotFound
  | errEncryptedStringTooShort
  | SqlError string
  | JsonError string
  | KeySizeError nat
  | AuthError
  | RandError
  | Errorf string
  | Wrap error string

text \<open>
  Modelled from the spec: the message of \<open>dserrors.ErrObjectNotFound\<close>, whose declaration
  is not among the sources; the specification calls it the "object not found" error. No
  statement below depends on the wording.
\<close>

definition ErrObjectNotFound_message :: string where
  "ErrObjectNotFound_message = ''object not found''"

text \<open>\<open>err.Error()\<close>, the message of an error.\<close>

fun Error :: "error \<Rightarrow> string" where
  "Error ErrNoConnection = ''database connection is not initialized''"
| "Error ErrHaveEncryptedAndUnencrypted =
     ''portainer has detected both an encrypted and un-encrypted database and cannot start''"
| "Error ErrHaveEncryptedWithNoKey =
     ''the portainer database is encrypted, but no secret was loaded''"
| "Error ErrNoRows = ''sql: no rows in result set''"
| "Error ErrObjectNotFound = ErrObjectNotFound_message"
| "Error errEncryptedStringTooShort = ''encrypted string too short''"
| "Error (SqlError msg) = msg"
| "Error (JsonError msg) = msg"
| "Error (KeySizeError n) = ''crypto/aes: invalid key size''"
| "Error AuthError = ''cipher: message authentication failed''"
| "Error RandError = ''unexpected EOF''"
| "Error (Errorf msg) = msg"
| "Error (Wrap c msg) = msg"

text \<open>
  \<open>fmt.Errorf(context + ": %w", err)\<close> on an error \<open>err\<close>, and \<open>errors.Wrap(err, msg)\<close> of
  \<open>github.com/pkg/errors\<close>, which returns nil when \<open>err\<close> is nil.
\<close>

definition Errorf_w :: "string \<Rightarrow> error \<Rightarrow> error" where
  "Errorf_w context err = Wrap err (context @ '': '' @ Error err)"

definition errors_Wrap :: "error option \<Rightarrow> string \<Rightarrow> error option" where
  "errors_Wrap err message =
     (case err of None \<Rightarrow> None | Some e \<Rightarrow> Some (Wrap e (message @ '': '' @ Error e)))"

text \<open>\<open>errors.Is\<close>: the target is found somewhere along the chain of causes.\<close>

fun errors_Is :: "error \<Rightarrow> error \<Rightarrow> bool" where
  "errors_Is (Wrap c msg) target = (Wrap c msg = target \<or> errors_Is c target)"
| "errors_Is e target = (e = target)"

text \<open>
  A call either returns or panics. The panic value is kept as a string; a nil-pointer
  dereference is the run-time panic of that name.
\<close>

datatype 'a outcome = Return 'a | Panic string

definition nil_dereference :: string where
  "nil_dereference = ''invalid memory address or nil pointer dereference''"

section \<open>The database behind a connection\<close>

text \<open>
  The SQL server is outside the package; what the package's statements need of it is
  modelled here. A database holds one table per bucket, a list of rows \<open>(id, data)\<close> in
  row order; the type parameter \<open>'k\<close> is the type of the \<open>id\<close> column (\<open>int\<close> for the
  numeric buckets, \<open>string\<close> for the string-keyed ones). \<open>fault\<close> says which operations
  the server currently refuses (a lost connection, a cancelled context), and with which
  error; a healthy server has \<open>fault = (\<lambda>_. None)\<close>. \<open>journal\<close> records the
  \<open>Commit\<close> and \<open>Rollback\<close> calls that ended transactions of this database.
\<close>

datatype sql_op = Begin | Commit | Rollback | TableExists string | Select string | Exec string

type_synonym 'k table = "('k \<times> bytes) list"

record 'k DB =
  tables :: "string \<rightharpoonup> 'k table"
  fault :: "sql_op \<Rightarrow> error option"
  journal :: "sql_op list"

record 'k DbConnection =
  EncryptionKey :: "bytes option"
  isEncrypted :: bool
  DB :: "'k DB option"

definition EncryptedMetadataTable :: string where
  "EncryptedMetadataTable = ''encrypted_metadata''"

definition UnencryptedMetadataTable :: string where
  "UnencryptedMetadataTable = ''unencrypted_metadata''"

definition getEncryptionKey :: "('k, 'x) DbConnection_scheme \<Rightarrow> bytes option" where
  "getEncryptionKey connection =
     (if \<not> isEncrypted connection then None else EncryptionKey connection)"

definition IsEncryptedStore :: "('k, 'x) DbConnection_scheme \<Rightarrow> bool" where
  "IsEncryptedStore connection = (getEncryptionKey connection \<noteq> None)"

section \<open>The migration detector\<close>

text \<open>
  The closure \<open>checkTableExists\<close> of the context-carrying connection:
  \<open>SELECT EXISTS (... table_name = $1)\<close>, scanned into a bool and returned together with
  the error of the scan.
\<close>

definition checkTableExists :: "'k DB \<Rightarrow> string \<Rightarrow> bool \<times> error option" where
  "checkTableExists db tableName =
     (case fault db (TableExists tableName) of
        Some e \<Rightarrow> (False, Some e)
      | None \<Rightarrow> (tableName \<in> dom (tables db), None))"

definition NeedsEncryptionMigration :: "'k DbConnection \<Rightarrow> bool \<times> error option" where
  "NeedsEncryptionMigration connection =
     (case DB connection of
        None \<Rightarrow> (False, Some ErrNoConnection)
      | Some db \<Rightarrow>
          (case checkTableExists db UnencryptedMetadataTable of
             (haveUnencrypted, Some err) \<Rightarrow>
               (False, Some (Errorf_w ''failed to check unencrypted table'' err))
           | (haveUnencrypted, None) \<Rightarrow>
               (case checkTableExists db EncryptedMetadataTable of
                  (haveEncrypted, Some err) \<Rightarrow>
                    (False, Some (Errorf_w ''failed to check encrypted table'' err))
                | (haveEncrypted, None) \<Rightarrow>
                    (if haveUnencrypted \<and> haveEncrypted
                       then (False, Some ErrHaveEncryptedAndUnencrypted)
                     else if haveUnencrypted \<and> EncryptionKey connection \<noteq> None
                       then (True, None)
                     else if haveEncrypted \<and> EncryptionKey connection = None
                       then (False, Some ErrHaveEncryptedWithNoKey)
                     else (False, None)))))"

text \<open>
  The older connection counts the rows of \<open>information_schema.tables\<close> with the given
  name and compares the count with zero; it dereferences \<open>connection.DB\<close> without a
  check, and returns the errors of the two checks as they are.
\<close>

definition table_count :: "'k DB \<Rightarrow> string \<Rightarrow> int" where
  "table_count db tableName = (if tableName \<in> dom (tables db) then 1 else 0)"

definition checkTableExists2 :: "'k DB \<Rightarrow> string \<Rightarrow> bool \<times> error option" where
  "checkTableExists2 db tableName =
     (case fault db (TableExists tableName) of
        Some err \<Rightarrow> (False, Some err)
      | None \<Rightarrow> (table_count db tableName > 0, None))"

definition NeedsEncryptionMigration2 ::
  "'k DbConnection \<Rightarrow> (bool \<times> error option) outcome" where
  "NeedsEncryptionMigration2 connection =
     (case DB connection of
        None \<Rightarrow> Panic nil_dereference
      | Some db \<Rightarrow>
          (case checkTableExists2 db UnencryptedMetadataTable of
             (haveUnencryptedTable, Some err) \<Rightarrow> Return (False, Some err)
           | (haveUnencryptedTable, None) \<Rightarrow>
               (case checkTableExists2 db EncryptedMetadataTable of
                  (haveEncryptedTable, Some err) \<Rightarrow> Return (False, Some err)
                | (haveEncryptedTable, None) \<Rightarrow>
                    (if haveUnencryptedTable \<and> haveEncryptedTable
                       then Return (False, Some ErrHaveEncryptedAndUnencrypted)
                     else if haveUnencryptedTable \<and> EncryptionKey connection \<noteq> None
                       then Return (True, None)
                     else if haveEncryptedTable \<and> EncryptionKey connection = None
                       then Return (False, Some ErrHaveEncryptedWithNoKey)
                     else Return (False, None)))))"

text \<open>A database state with the given marker tables, and a connection to it.\<close>

definition marker_tables :: "bool \<Rightarrow> bool \<Rightarrow> string \<rightharpoonup> 'k table" where
  "marker_tables unencrypted encrypted =
     (\<lambda>name. if name = UnencryptedMetadataTable \<and> unencrypted then Some []
             else if name = EncryptedMetadataTable \<and> encrypted then Some []
             else None)"

definition healthy :: "sql_op \<Rightarrow> error option" where
  "healthy = (\<lambda>_. None)"

definition marker_connection :: "bool \<Rightarrow> bool \<Rightarrow> bool \<Rightarrow> int DbConnection" where
  "marker_connection unencrypted encrypted key =
     \<lparr> EncryptionKey = (if key then Some ''secret'' else None),
       isEncrypted = False,
       DB = Some \<lparr> tables = marker_tables unencrypted encrypted, fault = healthy, journal = [] \<rparr> \<rparr>"

section \<open>The envelope codec\<close>

text \<open>
  A value of Go's \<open>any\<close> as the codec sees it: a string (for \<open>MarshalObject\<close> the
  string value, for \<open>UnmarshalObject\<close> the contents of a \<open>*string\<close> destination), or
  anything else, of a type \<open>'a\<close> that the model leaves open.
\<close>

datatype 'a object = Str string | Val 'a

text \<open>
  The libraries the package calls and that are not part of it are parameters of the
  model: the JSON encoder and decoder (the decoder takes the bytes and the destination and
  returns its error and the destination afterwards), the AEAD of \<open>crypto/cipher\<close>
  (\<open>gcm_Seal key nonce plaintext\<close> is the ciphertext with its tag), and the bytes that
  \<open>rand.Reader\<close> delivers next.
\<close>

record 'a library =
  json_Marshal :: "'a object \<Rightarrow> error + bytes"
  json_Unmarshal :: "bytes \<Rightarrow> 'a object \<Rightarrow> error option \<times> 'a object"
  gcm_Seal :: "bytes \<Rightarrow> bytes \<Rightarrow> bytes \<Rightarrow> bytes"
  gcm_Open :: "bytes \<Rightarrow> bytes \<Rightarrow> bytes \<Rightarrow> error + bytes"
  rand_Reader :: bytes

text \<open>
  \<open>aes.NewCipher\<close> accepts keys of 16, 24 and 32 bytes; \<open>cipher.NewGCM\<close> on an AES
  block does not fail, and its nonce has 12 bytes. \<open>io.ReadFull\<close> fills the buffer or
  fails.
\<close>

definition aes_NewCipher :: "bytes \<Rightarrow> error option" where
  "aes_NewCipher key =
     (if length key = 16 \<or> length key = 24 \<or> length key = 32 then None
      else Some (KeySizeError (length key)))"

definition gcm_NonceSize :: nat where
  "gcm_NonceSize = 12"

definition io_ReadFull :: "bytes \<Rightarrow> nat \<Rightarrow> error + bytes" where
  "io_ReadFull reader n = (if length reader < n then Inl RandError else Inr (take n reader))"

definition encrypt :: "'a library \<Rightarrow> bytes \<Rightarrow> bytes \<Rightarrow> error + bytes" where
  "encrypt lib plaintext passphrase =
     (case aes_NewCipher passphrase of
        Some err \<Rightarrow> Inl err
      | None \<Rightarrow>
          (case io_ReadFull (rand_Reader lib) gcm_NonceSize of
             Inl err \<Rightarrow> Inl err
           | Inr nonce \<Rightarrow> Inr (nonce @ gcm_Seal lib passphrase nonce plaintext)))"

text \<open>\<open>decrypt\<close> returns its input together with the error on every failing path.\<close>

definition decrypt :: "'a library \<Rightarrow> bytes \<Rightarrow> bytes \<Rightarrow> bytes \<times> error option" where
  "decrypt lib encrypted passphrase =
     (if encrypted = ''false'' then (''false'', None)
      else case aes_NewCipher passphrase of
        Some err \<Rightarrow> (encrypted, errors_Wrap (Some err) ''Error creating cipher block'')
      | None \<Rightarrow>
          (let nonceSize = gcm_NonceSize in
           if length encrypted < nonceSize then (encrypted, Some errEncryptedStringTooShort)
           else
             (let nonce = take nonceSize encrypted;
                  ciphertextByteClean = drop nonceSize encrypted
              in case gcm_Open lib passphrase nonce ciphertextByteClean of
                   Inl err \<Rightarrow> (encrypted, errors_Wrap (Some err) ''Error decrypting text'')
                 | Inr plaintextByte \<Rightarrow> (plaintextByte, None))))"

definition MarshalObject ::
  "'a library \<Rightarrow> ('k, 'x) DbConnection_scheme \<Rightarrow> 'a object \<Rightarrow> error + bytes" where
  "MarshalObject lib connection object =
     (case (case object of Str v \<Rightarrow> Inr v | Val x \<Rightarrow> json_Marshal lib (Val x)) of
        Inl err \<Rightarrow> Inl err
      | Inr buf \<Rightarrow>
          (case getEncryptionKey connection of
             None \<Rightarrow> Inr buf
           | Some key \<Rightarrow> encrypt lib buf key))"

text \<open>
  \<open>UnmarshalObject\<close> returns its error and the destination afterwards. After the
  decryption step the variable \<open>err\<close> is nil; it is this variable that the source hands to
  \<open>errors.Wrap\<close> when the JSON decoder fails, and that it returns at the end.
\<close>

definition UnmarshalObject ::
  "'a library \<Rightarrow> ('k, 'x) DbConnection_scheme \<Rightarrow> bytes \<Rightarrow> 'a object \<Rightarrow>
     error option \<times> 'a object" where
  "UnmarshalObject lib connection data object =
     (let (data1, err) =
        (case getEncryptionKey connection of
           None \<Rightarrow> (data, None)
         | Some key \<Rightarrow> decrypt lib data key)
      in if err \<noteq> None then (errors_Wrap err ''Failed decrypting object'', object)
         else
           (case json_Unmarshal lib data1 object of
              (None, decoded) \<Rightarrow> (err, decoded)
            | (Some e, partial) \<Rightarrow>
                (case object of
                   Val x \<Rightarrow> (errors_Wrap err (Error e), partial)
                 | Str s \<Rightarrow> (err, Str data1))))"

subsection \<open>A sample library\<close>

text \<open>
  To evaluate the codec on concrete inputs the parameters need values. The sample decoder
  covers a fragment of JSON on which it agrees with the JSON library: into a bool
  container the texts \<open>true\<close> and \<open>false\<close>; into a string container a quoted run of
  printable ASCII characters without quote and backslash; \<open>null\<close> leaves either
  container as it is. Every other input is reported as an error, which is what the
  library does on the inputs evaluated below (texts that do not start a JSON value). The
  sample AEAD appends a fixed 16-byte tag and checks it; it stands in for AES-GCM only
  where a hypothesis about the cipher has to be discharged.
\<close>

definition plain_char :: "char \<Rightarrow> bool" where
  "plain_char c =
     (32 \<le> (of_char c :: nat) \<and> (of_char c :: nat) \<le> 126 \<and> c \<noteq> CHR 0x22 \<and> c \<noteq> CHR 0x5C)"

definition sample_Unmarshal :: "bytes \<Rightarrow> bool object \<Rightarrow> error option \<times> bool object" where
  "sample_Unmarshal data object =
     (if data = ''null'' then (None, object)
      else case object of
        Val b \<Rightarrow>
          (if data = ''true'' then (None, Val True)
           else if data = ''false'' then (None, Val False)
           else (Some (JsonError ''json: not a value for a bool''), Val b))
      | Str s \<Rightarrow>
          (if 2 \<le> length data \<and> hd data = CHR 0x22 \<and> last data = CHR 0x22
              \<and> list_all plain_char (butlast (tl data))
           then (None, Str (butlast (tl data)))
           else (Some (JsonError ''json: not a value for a string''), Str s)))"

definition sample_Marshal :: "bool object \<Rightarrow> error + bytes" where
  "sample_Marshal object =
     (case object of
        Val b \<Rightarrow> Inr (if b then ''true'' else ''false'')
      | Str s \<Rightarrow>
          (if list_all plain_char s then Inr ([CHR 0x22] @ s @ [CHR 0x22])
           else Inl (JsonError ''outside the sample fragment'')))"

definition sample_tag :: bytes where
  "sample_tag = replicate 16 (CHR ''t'')"

definition sample_Seal :: "bytes \<Rightarrow> bytes \<Rightarrow> bytes \<Rightarrow> bytes" where
  "sample_Seal key nonce plaintext = plaintext @ sample_tag"

definition sample_Open :: "bytes \<Rightarrow> bytes \<Rightarrow> bytes \<Rightarrow> error + bytes" where
  "sample_Open key nonce ciphertext =
     (if 16 \<le> length ciphertext \<and> drop (length ciphertext - 16) ciphertext = sample_tag
      then Inr (take (length ciphertext - 16) ciphertext)
      else Inl AuthError)"

definition sample_library :: "bool library" where
  "sample_library =
     \<lparr> json_Marshal = sample_Marshal, json_Unmarshal = sample_Unmarshal,
       gcm_Seal = sample_Seal, gcm_Open = sample_Open,
       rand_Reader = ''0123456789abcdef'' \<rparr>"

definition sample_key :: bytes where
  "sample_key = ''0123456789abcdef''"

definition plain_connection :: "int DbConnection" where
  "plain_connection = \<lparr> EncryptionKey = None, isEncrypted = False, DB = None \<rparr>"

definition encrypted_connection :: "int DbConnection" where
  "encrypted_connection = \<lparr> EncryptionKey = Some sample_key, isEncrypted = True, DB = None \<rparr>"

section \<open>Transactions of a connection\<close>

text \<open>
  \<open>DbTransaction\<close> wraps the live transaction of the driver: its view of the tables, which
  its statements read and change, and the faults of the server it runs on. The
  back-reference to the connection is not used by the methods modelled here. The three
  calls of the driver: \<open>Beginx\<close> opens a transaction on the committed tables; \<open>Commit\<close>
  installs the transaction's tables unless the server refuses; \<open>Rollback\<close> discards them.
\<close>

record 'k DbTransaction =
  tx_tables :: "string \<rightharpoonup> 'k table"
  tx_fault :: "sql_op \<Rightarrow> error option"

definition sqlx_Beginx :: "'k DB \<Rightarrow> error + 'k DbTransaction" where
  "sqlx_Beginx db =
     (case fault db Begin of
        Some err \<Rightarrow> Inl err
      | None \<Rightarrow> Inr \<lparr> tx_tables = tables db, tx_fault = fault db \<rparr>)"

definition sqlx_Commit :: "'k DB \<Rightarrow> 'k DbTransaction \<Rightarrow> error option \<times> 'k DB" where
  "sqlx_Commit db t =
     (case fault db Commit of
        Some err \<Rightarrow> (Some err, db\<lparr>journal := journal db @ [Commit]\<rparr>)
      | None \<Rightarrow> (None, db\<lparr>tables := tx_tables t, journal := journal db @ [Commit]\<rparr>))"

definition sqlx_Rollback :: "'k DB \<Rightarrow> 'k DbTransaction \<Rightarrow> error option \<times> 'k DB" where
  "sqlx_Rollback db t = (fault db Rollback, db\<lparr>journal := journal db @ [Rollback]\<rparr>)"

text \<open>
  The function handed to \<open>UpdateTx\<close> works on the transaction and then returns an
  error, returns nil, or panics. \<open>UpdateTx\<close> of the context-carrying connection: the
  deferred function rolls back and panics again with the same value; an error of the
  rollback after a failed function is logged and dropped.
\<close>

type_synonym 'k tx_fn = "'k DbTransaction \<Rightarrow> error option outcome \<times> 'k DbTransaction"

definition UpdateTx ::
  "'k DbConnection \<Rightarrow> 'k tx_fn \<Rightarrow> error option outcome \<times> 'k DbConnection" where
  "UpdateTx connection fn =
     (case DB connection of
        None \<Rightarrow> (Return (Some ErrNoConnection), connection)
      | Some db \<Rightarrow>
          (case sqlx_Beginx db of
             Inl err \<Rightarrow> (Return (Some (Errorf_w ''failed to begin transaction'' err)), connection)
           | Inr pgTx \<Rightarrow>
               (case fn pgTx of
                  (Panic p, t) \<Rightarrow>
                    (Panic p, connection\<lparr>DB := Some (snd (sqlx_Rollback db t))\<rparr>)
                | (Return (Some err), t) \<Rightarrow>
                    (Return (Some err), connection\<lparr>DB := Some (snd (sqlx_Rollback db t))\<rparr>)
                | (Return None, t) \<Rightarrow>
                    (let (err, db') = sqlx_Commit db t
                     in (Return err, connection\<lparr>DB := Some db'\<rparr>)))))"

definition ViewTx ::
  "'k DbConnection \<Rightarrow> 'k tx_fn \<Rightarrow> error option outcome \<times> 'k DbConnection" where
  "ViewTx connection fn = UpdateTx connection fn"

text \<open>
  \<open>UpdateTx\<close> of the older connection: no check of \<open>connection.DB\<close>, and the error of
  \<open>Beginx\<close> is returned as it is.
\<close>

definition UpdateTx2 ::
  "'k DbConnection \<Rightarrow> 'k tx_fn \<Rightarrow> error option outcome \<times> 'k DbConnection" where
  "UpdateTx2 connection fn =
     (case DB connection of
        None \<Rightarrow> (Panic nil_dereference, connection)
      | Some db \<Rightarrow>
          (case sqlx_Beginx db of
             Inl err \<Rightarrow> (Return (Some err), connection)
           | Inr pgTx \<Rightarrow>
               (case fn pgTx of
                  (Panic p, t) \<Rightarrow>
                    (Panic p, connection\<lparr>DB := Some (snd (sqlx_Rollback db t))\<rparr>)
                | (Return (Some err), t) \<Rightarrow>
                    (Return (Some err), connection\<lparr>DB := Some (snd (sqlx_Rollback db t))\<rparr>)
                | (Return None, t) \<Rightarrow>
                    (let (err, db') = sqlx_Commit db t
                     in (Return err, connection\<lparr>DB := Some db'\<rparr>)))))"

definition ViewTx2 ::
  "'k DbConnection \<Rightarrow> 'k tx_fn \<Rightarrow> error option outcome \<times> 'k DbConnection" where
  "ViewTx2 connection fn = UpdateTx2 connection fn"

section \<open>Identifier allocation\<close>

text \<open>
  The statement \<open>SELECT COALESCE(MAX(id), 0) + 1 FROM bucket\<close> on a table whose \<open>id\<close>
  column is \<open>SERIAL\<close>, a 32-bit integer: \<open>MAX\<close> of no rows is NULL, and the server
  refuses a sum beyond the range of the column type. A table that does not exist is an
  error of the statement.
\<close>

definition max_id :: "int table \<Rightarrow> int option" where
  "max_id rows = (case rows of [] \<Rightarrow> None | r # rs \<Rightarrow> Some (fold max (map fst rs) (fst r)))"

definition int4_max :: int where
  "int4_max = 2147483647"

definition select_next_id ::
  "(string \<rightharpoonup> int table) \<Rightarrow> (sql_op \<Rightarrow> error option) \<Rightarrow> string \<Rightarrow> error + int" where
  "select_next_id tabs refused bucketName =
     (case refused (Select bucketName) of
        Some err \<Rightarrow> Inl err
      | None \<Rightarrow>
          (case tabs bucketName of
             None \<Rightarrow> Inl (SqlError ''relation does not exist'')
           | Some rows \<Rightarrow>
               (let m = (case max_id rows of None \<Rightarrow> 0 | Some i \<Rightarrow> i)
                in if m + 1 > int4_max then Inl (SqlError ''integer out of range'')
                   else Inr (m + 1))))"

text \<open>
  \<open>GetNextIdentifier\<close> of the context-carrying connection, of the older connection, and
  of the transaction. None of them checks \<open>connection.DB\<close>. The message they log on an
  error is not modelled. The transaction's method returns the transaction with its
  result, so that calls can be put in sequence.
\<close>

definition GetNextIdentifier :: "int DbConnection \<Rightarrow> string \<Rightarrow> int outcome" where
  "GetNextIdentifier connection tableName =
     (case DB connection of
        None \<Rightarrow> Panic nil_dereference
      | Some db \<Rightarrow>
          (case select_next_id (tables db) (fault db) tableName of
             Inl err \<Rightarrow> Return 1
           | Inr nextID \<Rightarrow> Return nextID))"

definition GetNextIdentifier2 :: "int DbConnection \<Rightarrow> string \<Rightarrow> int outcome" where
  "GetNextIdentifier2 connection bucketName =
     (case DB connection of
        None \<Rightarrow> Panic nil_dereference
      | Some db \<Rightarrow>
          (case select_next_id (tables db) (fault db) bucketName of
             Inl err \<Rightarrow> Return 0
           | Inr nextID \<Rightarrow> Return nextID))"

definition tx_GetNextIdentifier ::
  "int DbTransaction \<Rightarrow> string \<Rightarrow> int \<times> int DbTransaction" where
  "tx_GetNextIdentifier t bucketName =
     (case select_next_id (tx_tables t) (tx_fault t) bucketName of
        Inl err \<Rightarrow> (0, t)
      | Inr nextID \<Rightarrow> (nextID, t))"

text \<open>Two calls in sequence on one transaction, with nothing in between.\<close>

definition two_GetNextIdentifier :: "int DbTransaction \<Rightarrow> string \<Rightarrow> int \<times> int" where
  "two_GetNextIdentifier t bucketName =
     (let (first, t1) = tx_GetNextIdentifier t bucketName;
          (second, t2) = tx_GetNextIdentifier t1 bucketName
      in (first, second))"

definition one_row_tx :: "int DbTransaction" where
  "one_row_tx = \<lparr> tx_tables = [''endpoints'' \<mapsto> [(1, ''{}'')]], tx_fault = healthy \<rparr>"

definition one_row_connection :: "int DbConnection" where
  "one_row_connection =
     \<lparr> EncryptionKey = None, isEncrypted = False,
       DB = Some \<lparr> tables = [''endpoints'' \<mapsto> [(1, ''{}'')]], fault = healthy, journal = [] \<rparr> \<rparr>"

text \<open>A function that empties a bucket and then fails.\<close>

definition failing_fn :: "int tx_fn" where
  "failing_fn t =
     (Return (Some (Errorf ''boom'')), t\<lparr>tx_tables := (tx_tables t)(''endpoints'' \<mapsto> [])\<rparr>)"

section \<open>The bucket protocol of a transaction\<close>

text \<open>
  The key of a lookup reaches the server as the text \<open>string(key)\<close>, and the server reads
  it as a value of the type of the \<open>id\<close> column before it compares. This conversion
  belongs to the server and depends on the column, so the statements below take it as the
  parameter \<open>id_in\<close>. For a text column it accepts every key as it is. For the column
  \<open>id SERIAL\<close> that \<open>SetServiceName\<close> creates it is the server's integer input,
  \<open>int4_in\<close>: blanks around an optional sign and decimal digits, within 32 bits; any other
  text is an error of the statement. (Servers that also read other bases accept a few more
  spellings; a text with a zero byte is refused by all.)
\<close>

type_synonym 'k id_input = "string \<Rightarrow> error + 'k"

definition text_in :: "string id_input" where
  "text_in key = Inr key"

definition pg_space :: "char \<Rightarrow> bool" where
  "pg_space c =
     (c = CHR 0x20 \<or> c = CHR 0x09 \<or> c = CHR 0x0A \<or> c = CHR 0x0B \<or> c = CHR 0x0C \<or> c = CHR 0x0D)"

definition pg_digit :: "char \<Rightarrow> bool" where
  "pg_digit c = (48 \<le> (of_char c :: nat) \<and> (of_char c :: nat) \<le> 57)"

definition digits_value :: "string \<Rightarrow> int" where
  "digits_value ds = foldl (\<lambda>acc c. 10 * acc + (of_char c - 48)) 0 ds"

definition int4_in :: "int id_input" where
  "int4_in key =
     (let body = rev (dropWhile pg_space (rev (dropWhile pg_space key)));
          negative = (body \<noteq> [] \<and> hd body = CHR ''-'');
          ds = (if body \<noteq> [] \<and> (hd body = CHR ''-'' \<or> hd body = CHR ''+'') then tl body else body)
      in if ds = [] \<or> \<not> list_all pg_digit ds
           then Inl (SqlError ''invalid input syntax for type integer'')
         else
           (let n = (if negative then - digits_value ds else digits_value ds)
            in if n < - 2147483648 \<or> 2147483647 < n
                 then Inl (SqlError ''value out of range for type integer'')
               else Inr n))"

text \<open>
  \<open>ConvertToKey\<close> of the context-carrying connection: the eight bytes of \<open>uint64(key)\<close>,
  most significant first.
\<close>

definition ConvertToKey :: "int \<Rightarrow> bytes" where
  "ConvertToKey key = map (\<lambda>i. char_of ((key mod 2 ^ 64) div 256 ^ (7 - i))) [0..<8]"

text \<open>
  \<open>tx.Get(&jsonData, "SELECT data FROM bucket WHERE id = $1", string(key))\<close>: an error of
  the server when the statement is refused, the table does not exist, or the key is not a
  value of the \<open>id\<close> column; otherwise the data of the first row with that id, and
  \<open>sql.ErrNoRows\<close> when the table has none. A statement that fails leaves the tables as
  they are.
\<close>

definition select_data ::
  "'k id_input \<Rightarrow> 'k DbTransaction \<Rightarrow> string \<Rightarrow> string \<Rightarrow> error + bytes" where
  "select_data id_in t bucketName key =
     (case tx_fault t (Select bucketName) of
        Some err \<Rightarrow> Inl err
      | None \<Rightarrow>
          (case tx_tables t bucketName of
             None \<Rightarrow> Inl (SqlError ''relation does not exist'')
           | Some rows \<Rightarrow>
               (case id_in key of
                  Inl err \<Rightarrow> Inl err
                | Inr k \<Rightarrow>
                    (case filter (\<lambda>r. fst r = k) rows of
                       [] \<Rightarrow> Inl ErrNoRows
                     | r # _ \<Rightarrow> Inr (snd r)))))"

text \<open>\<open>fmt.Errorf("%w (bucket=%s, key=%s)", dserrors.ErrObjectNotFound, bucketName, key)\<close>.\<close>

definition not_found_error :: "string \<Rightarrow> string \<Rightarrow> error" where
  "not_found_error bucketName key =
     Wrap ErrObjectNotFound
       (Error ErrObjectNotFound @ '' (bucket='' @ bucketName @ '', key='' @ key @ '')'')"

definition tx_GetObject ::
  "'a library \<Rightarrow> 'k id_input \<Rightarrow> 'k DbTransaction \<Rightarrow> string \<Rightarrow> bytes \<Rightarrow> 'a object \<Rightarrow>
     (error option \<times> 'a object) \<times> 'k DbTransaction" where
  "tx_GetObject lib id_in t bucketName key object =
     (case select_data id_in t bucketName key of
        Inl err \<Rightarrow>
          (if err = ErrNoRows then ((Some (not_found_error bucketName key), object), t)
           else ((Some err, object), t))
      | Inr jsonData \<Rightarrow> (json_Unmarshal lib jsonData object, t))"


text \<open>
  The visit function of a scan takes the decoded object and returns an object and an error;
  being a closure it also has a state of its own, \<open>'s\<close>, which it may change. The loop
  \<open>for rows.Next()\<close> over the data of the selected rows: decode into the current object,
  hand it to the visit function, go on with the object it returned; the first error of the
  decoder or of the visit function ends the loop.
\<close>

type_synonym ('a, 's) visitor = "'a object \<Rightarrow> 's \<Rightarrow> ('a object \<times> error option) \<times> 's"

fun scan_rows ::
  "'a library \<Rightarrow> ('a, 's) visitor \<Rightarrow> bytes list \<Rightarrow> 'a object \<Rightarrow> 's \<Rightarrow> error option \<times> 's" where
  "scan_rows lib appendFn [] obj s = (None, s)"
| "scan_rows lib appendFn (jsonData # rest) obj s =
     (case json_Unmarshal lib jsonData obj of
        (Some err, partial) \<Rightarrow> (Some err, s)
      | (None, decoded) \<Rightarrow>
          (case appendFn decoded s of
             ((obj', Some err), s') \<Rightarrow> (Some err, s')
           | ((obj', None), s') \<Rightarrow> scan_rows lib appendFn rest obj' s'))"

definition select_rows ::
  "'k DbTransaction \<Rightarrow> string \<Rightarrow> ('k \<Rightarrow> bool) \<Rightarrow> error + bytes list" where
  "select_rows t bucketName cond =
     (case tx_fault t (Select bucketName) of
        Some err \<Rightarrow> Inl err
      | None \<Rightarrow>
          (case tx_tables t bucketName of
             None \<Rightarrow> Inl (SqlError ''relation does not exist'')
           | Some rows \<Rightarrow> Inr (map snd (filter (\<lambda>r. cond (fst r)) rows))))"

definition tx_GetAll ::
  "'a library \<Rightarrow> 'k DbTransaction \<Rightarrow> string \<Rightarrow> 'a object \<Rightarrow> ('a, 's) visitor \<Rightarrow> 's \<Rightarrow>
     (error option \<times> 's) \<times> 'k DbTransaction" where
  "tx_GetAll lib t bucketName obj appendFn s =
     (case select_rows t bucketName (\<lambda>k. True) of
        Inl err \<Rightarrow> ((Some err, s), t)
      | Inr rows \<Rightarrow> (scan_rows lib appendFn rows obj s, t))"

text \<open>
  The operator \<open>LIKE\<close> of SQL with its default escape character: in the pattern, \<open>%\<close>
  matches any run of characters, \<open>_\<close> any one character, a backslash makes the next
  character stand for itself, and any other character stands for itself. A pattern that
  ends in a lone backslash is an error of the server; the patterns built below end in
  \<open>%\<close>, and the model answers \<open>False\<close> for it.
\<close>

fun sql_like :: "string \<Rightarrow> string \<Rightarrow> bool" where
  "sql_like s [] = (s = [])"
| "sql_like s (p # ps) =
     (if p = CHR ''%'' then
        (sql_like s ps \<or> (case s of [] \<Rightarrow> False | c # cs \<Rightarrow> sql_like cs (p # ps)))
      else if p = CHR ''_'' then
        (case s of [] \<Rightarrow> False | c # cs \<Rightarrow> sql_like cs ps)
      else if p = CHR 0x5C then
        (case ps of
           [] \<Rightarrow> False
         | q # qs \<Rightarrow> (case s of [] \<Rightarrow> False | c # cs \<Rightarrow> c = q \<and> sql_like cs qs))
      else
        (case s of [] \<Rightarrow> False | c # cs \<Rightarrow> c = p \<and> sql_like cs ps))"

text \<open>The characters with a meaning of their own in a \<open>LIKE\<close> pattern.\<close>

definition like_special :: "char \<Rightarrow> bool" where
  "like_special c = (c = CHR ''%'' \<or> c = CHR ''_'' \<or> c = CHR 0x5C)"

text \<open>\<open>SELECT data FROM bucket WHERE id LIKE $1\<close> with \<open>string(keyPrefix)+"%"\<close>.\<close>

definition tx_GetAllWithKeyPrefix ::
  "'a library \<Rightarrow> string DbTransaction \<Rightarrow> string \<Rightarrow> bytes \<Rightarrow> 'a object \<Rightarrow>
     ('a, 's) visitor \<Rightarrow> 's \<Rightarrow> (error option \<times> 's) \<times> string DbTransaction" where
  "tx_GetAllWithKeyPrefix lib t bucketName keyPrefix obj appendFn s =
     (case select_rows t bucketName (\<lambda>k. sql_like k (keyPrefix @ ''%'')) of
        Inl err \<Rightarrow> ((Some err, s), t)
      | Inr rows \<Rightarrow> (scan_rows lib appendFn rows obj s, t))"

text \<open>
  To speak about the calls of a visit function, \<open>traced\<close> runs it and also appends the
  object it was given to a list; \<open>collect\<close> is a visit function that only does that, and
  \<open>stop_at\<close> one that fails on a given object.
\<close>

definition traced :: "('a, 's) visitor \<Rightarrow> ('a, 's \<times> 'a object list) visitor" where
  "traced appendFn obj = (\<lambda>(s, seen). case appendFn obj s of (r, s') \<Rightarrow> (r, (s', seen @ [obj])))"

definition collect :: "('a, unit) visitor" where
  "collect obj s = ((obj, None), s)"

definition stop_at :: "'a object \<Rightarrow> ('a, unit) visitor" where
  "stop_at bad obj s = ((obj, if obj = bad then Some (Errorf ''stop'') else None), s)"

definition serial_tx :: "int DbTransaction" where
  "serial_tx = \<lparr> tx_tables = [''endpoints'' \<mapsto> [(1, ''true'')]], tx_fault = healthy \<rparr>"

definition string_tx :: "string DbTransaction" where
  "string_tx =
     \<lparr> tx_tables = [''settings'' \<mapsto> [(''ab'', ''true''), (''a_c'', ''false''), (''b'', ''true'')]],
       tx_fault = healthy \<rparr>"

section \<open>The single-table store\<close>

text \<open>
  \<open>PostgresStore\<close> keeps every bucket in the table \<open>portainer_buckets\<close>, whose primary
  key is the pair of bucket name and key: a map from that pair to the value. The driver's
  transaction holds its view of the table and the list of the statements it was sent. The
  lock of the store is not modelled. In \<open>PostgresBucket\<close> the fields \<open>tx\<close> and
  \<open>bucketName\<close> of the source are \<open>bkt_tx\<close> and \<open>bkt_name\<close>, and the field \<open>tx\<close> of
  \<open>PostgresTx\<close> is \<open>sql_tx\<close>.
\<close>

type_synonym bucket_table = "(string \<times> bytes) \<rightharpoonup> bytes"

record sql_Tx =
  pending_rows :: bucket_table
  stmt_fault :: "sql_op \<Rightarrow> error option"
  executed :: "sql_op list"

record PostgresStore =
  db_rows :: bucket_table
  db_fault :: "sql_op \<Rightarrow> error option"

record PostgresTx =
  sql_tx :: sql_Tx
  writeable :: bool

record PostgresBucket =
  bkt_tx :: PostgresTx
  bkt_name :: string

definition portainer_buckets :: string where
  "portainer_buckets = ''portainer_buckets''"

definition sql_Exec :: "sql_Tx \<Rightarrow> (bucket_table \<Rightarrow> bucket_table) \<Rightarrow> error option \<times> sql_Tx" where
  "sql_Exec st change =
     (case stmt_fault st (Exec portainer_buckets) of
        Some err \<Rightarrow> (Some err, st\<lparr>executed := executed st @ [Exec portainer_buckets]\<rparr>)
      | None \<Rightarrow>
          (None, st\<lparr>pending_rows := change (pending_rows st),
                     executed := executed st @ [Exec portainer_buckets]\<rparr>))"

definition store_Begin :: "PostgresStore \<Rightarrow> error + sql_Tx" where
  "store_Begin s =
     (case db_fault s Begin of
        Some err \<Rightarrow> Inl err
      | None \<Rightarrow> Inr \<lparr> pending_rows = db_rows s, stmt_fault = db_fault s, executed = [] \<rparr>)"

definition store_Commit :: "PostgresStore \<Rightarrow> sql_Tx \<Rightarrow> error option \<times> PostgresStore" where
  "store_Commit s st =
     (case db_fault s Commit of
        Some err \<Rightarrow> (Some err, s)
      | None \<Rightarrow> (None, s\<lparr>db_rows := pending_rows st\<rparr>))"

text \<open>
  \<open>View\<close> and \<open>Update\<close> return their error and the store afterwards. A rollback, deferred
  in \<open>View\<close> and explicit in \<open>Update\<close>, leaves the store as it was. A panic of the function
  is not modelled here.
\<close>

type_synonym store_fn = "PostgresTx \<Rightarrow> error option \<times> PostgresTx"

definition View :: "PostgresStore \<Rightarrow> store_fn \<Rightarrow> error option \<times> PostgresStore" where
  "View s fn =
     (case store_Begin s of
        Inl err \<Rightarrow> (Some err, s)
      | Inr st \<Rightarrow>
          (case fn \<lparr> sql_tx = st, writeable = False \<rparr> of
             (Some err, ptx) \<Rightarrow> (Some err, s)
           | (None, ptx) \<Rightarrow> store_Commit s (sql_tx ptx)))"

definition Update :: "PostgresStore \<Rightarrow> store_fn \<Rightarrow> error option \<times> PostgresStore" where
  "Update s fn =
     (case store_Begin s of
        Inl err \<Rightarrow> (Some err, s)
      | Inr st \<Rightarrow>
          (case fn \<lparr> sql_tx = st, writeable = True \<rparr> of
             (Some err, ptx) \<Rightarrow> (Some err, s)
           | (None, ptx) \<Rightarrow> store_Commit s (sql_tx ptx)))"

definition Bucket :: "PostgresTx \<Rightarrow> bytes \<Rightarrow> PostgresBucket" where
  "Bucket ptx name = \<lparr> bkt_tx = ptx, bkt_name = name \<rparr>"

definition Put :: "PostgresBucket \<Rightarrow> bytes \<Rightarrow> bytes \<Rightarrow> error option \<times> PostgresTx" where
  "Put b key val =
     (if \<not> writeable (bkt_tx b) then (Some (Errorf ''transaction is read-only''), bkt_tx b)
      else
        (case sql_Exec (sql_tx (bkt_tx b)) (\<lambda>rows. rows((bkt_name b, key) \<mapsto> val)) of
           (err, st) \<Rightarrow> (err, (bkt_tx b)\<lparr>sql_tx := st\<rparr>)))"

definition Delete :: "PostgresBucket \<Rightarrow> bytes \<Rightarrow> error option \<times> PostgresTx" where
  "Delete b key =
     (if \<not> writeable (bkt_tx b) then (Some (Errorf ''transaction is read-only''), bkt_tx b)
      else
        (case sql_Exec (sql_tx (bkt_tx b)) (\<lambda>rows. rows((bkt_name b, key) := None)) of
           (err, st) \<Rightarrow> (err, (bkt_tx b)\<lparr>sql_tx := st\<rparr>)))"

definition healthy_store :: PostgresStore where
  "healthy_store = \<lparr> db_rows = [(''settings'', ''k'') \<mapsto> ''old''], db_fault = healthy \<rparr>"

text \<open>
  A function handed to \<open>View\<close> or \<open>Update\<close> that issues a list of writes one after the
  other, drops their errors and returns nil.
\<close>

datatype store_op = PutOp bytes bytes bytes | DeleteOp bytes bytes

fun apply_op :: "store_op \<Rightarrow> PostgresTx \<Rightarrow> error option \<times> PostgresTx" where
  "apply_op (PutOp name key val) ptx = Put (Bucket ptx name) key val"
| "apply_op (DeleteOp name key) ptx = Delete (Bucket ptx name) key"

fun run_ops :: "store_op list \<Rightarrow> PostgresTx \<Rightarrow> error option list \<times> PostgresTx" where
  "run_ops [] ptx = ([], ptx)"
| "run_ops (x # xs) ptx =
     (case apply_op x ptx of
        (err, ptx1) \<Rightarrow> (case run_ops xs ptx1 of (errs, ptx2) \<Rightarrow> (err # errs, ptx2)))"

definition ignore_errors :: "store_op list \<Rightarrow> store_fn" where
  "ignore_errors ops ptx = (None, snd (run_ops ops ptx))"

section \<open>Migration matrix\<close>

text \<open>
  Claim C1. Whenever the two existence checks succeed, \<open>NeedsEncryptionMigration\<close>
  returns the pair that the decision table gives for (unencrypted marker table exists,
  encrypted marker table exists, encryption key present): the both-present error when both
  tables exist, \<open>(true, nil)\<close> for the unencrypted table with a key, \<open>(false, nil)\<close> for
  the unencrypted table without a key, the encrypted-without-key error for the encrypted
  table without a key, \<open>(false, nil)\<close> for the encrypted table with a key, and
  \<open>(false, nil)\<close> when neither exists. This holds for the context-carrying connection and
  for the older one.
\<close>

theorem NeedsEncryptionMigration_matrix:
  assumes "DB connection = Some db"
    and "fault db (TableExists UnencryptedMetadataTable) = None"
    and "fault db (TableExists EncryptedMetadataTable) = None"
    and "unencrypted = (UnencryptedMetadataTable \<in> dom (tables db))"
    and "encrypted = (EncryptedMetadataTable \<in> dom (tables db))"
    and "key = (EncryptionKey connection \<noteq> None)"
    and "r = NeedsEncryptionMigration connection"
    and "r2 = NeedsEncryptionMigration2 connection"
  shows "(unencrypted \<and> encrypted \<longrightarrow>
            r = (False, Some ErrHaveEncryptedAndUnencrypted) \<and>
            r2 = Return (False, Some ErrHaveEncryptedAndUnencrypted)) \<and>
         (unencrypted \<and> \<not> encrypted \<and> key \<longrightarrow>
            r = (True, None) \<and> r2 = Return (True, None)) \<and>
         (unencrypted \<and> \<not> encrypted \<and> \<not> key \<longrightarrow>
            r = (False, None) \<and> r2 = Return (False, None)) \<and>
         (\<not> unencrypted \<and> encrypted \<and> \<not> key \<longrightarrow>
            r = (False, Some ErrHaveEncryptedWithNoKey) \<and>
            r2 = Return (False, Some ErrHaveEncryptedWithNoKey)) \<and>
         (\<not> unencrypted \<and> encrypted \<and> key \<longrightarrow>
            r = (False, None) \<and> r2 = Return (False, None)) \<and>
         (\<not> unencrypted \<and> \<not> encrypted \<longrightarrow>
            r = (False, None) \<and> r2 = Return (False, None))"
  using assms
  by (auto simp: NeedsEncryptionMigration_def NeedsEncryptionMigration2_def
      checkTableExists_def checkTableExists2_def table_count_def)

lemma marker_tables_dom:
  "(UnencryptedMetadataTable \<in> dom (marker_tables u e :: string \<rightharpoonup> int table)) = u"
  "(EncryptedMetadataTable \<in> dom (marker_tables u e :: string \<rightharpoonup> int table)) = e"
  by (auto simp: marker_tables_def dom_def UnencryptedMetadataTable_def
      EncryptedMetadataTable_def)

theorem NeedsEncryptionMigration_matrix_witness:
  "NeedsEncryptionMigration (marker_connection True False True) = (True, None) \<and>
   NeedsEncryptionMigration2 (marker_connection True False True) = Return (True, None)"
  using NeedsEncryptionMigration_matrix
    [of "marker_connection True False True"
        "\<lparr> tables = marker_tables True False, fault = healthy, journal = [] \<rparr>"
        True False True
        "NeedsEncryptionMigration (marker_connection True False True)"
        "NeedsEncryptionMigration2 (marker_connection True False True)"]
  by (simp add: marker_connection_def healthy_def marker_tables_dom)

section \<open>Properties of the envelope codec\<close>

lemma io_ReadFull_length: "io_ReadFull r n = Inr nonce \<Longrightarrow> length nonce = n"
  by (auto simp: io_ReadFull_def split: if_splits)

lemma sample_simps:
  "json_Marshal sample_library = sample_Marshal"
  "json_Unmarshal sample_library = sample_Unmarshal"
  "gcm_Seal sample_library = sample_Seal"
  "gcm_Open sample_library = sample_Open"
  "rand_Reader sample_library = ''0123456789abcdef''"
  "getEncryptionKey plain_connection = None"
  "getEncryptionKey encrypted_connection = Some sample_key"
  "aes_NewCipher sample_key = None"
  by (simp_all add: sample_library_def getEncryptionKey_def plain_connection_def
      encrypted_connection_def aes_NewCipher_def sample_key_def)

text \<open>
  Claim C3, as amended. Decoding what \<open>MarshalObject\<close> produced reproduces the value, with
  no error, in two cases: the value is not a string, the JSON encoder accepts it, and the
  JSON decoder reads that encoding back into the destination as the same value with no
  error; or the value is a string, the destination is a string container, and the JSON
  decoder rejects the raw text of the string (so that \<open>UnmarshalObject\<close> falls back to
  the raw bytes). This holds when no encryption key is in
  effect, and when a key of a valid length is in effect, the random source delivers a
  nonce, and the cipher opens what it sealed.
\<close>

theorem MarshalObject_UnmarshalObject_roundtrip:
  assumes key: "getEncryptionKey connection = None \<or>
      (\<exists>key nonce. getEncryptionKey connection = Some key \<and> aes_NewCipher key = None \<and>
         io_ReadFull (rand_Reader lib) gcm_NonceSize = Inr nonce \<and>
         gcm_Open lib key nonce (gcm_Seal lib key nonce plain) = Inr plain)"
    and val: "(\<exists>x. v = Val x \<and> json_Marshal lib v = Inr plain \<and>
                 json_Unmarshal lib plain dest = (None, v)) \<or>
              (\<exists>s s0. v = Str s \<and> plain = s \<and> dest = Str s0 \<and>
                 fst (json_Unmarshal lib s dest) \<noteq> None)"
  shows "\<exists>data. MarshalObject lib connection v = Inr data \<and>
           UnmarshalObject lib connection data dest = (None, v)"
proof -
  show ?thesis
    using key
  proof
    assume none: "getEncryptionKey connection = None"
    have "MarshalObject lib connection v = Inr plain"
      using val none by (auto simp: MarshalObject_def)
    moreover have "UnmarshalObject lib connection plain dest = (None, v)"
      using val none
      by (auto simp: UnmarshalObject_def split: prod.splits option.splits)
    ultimately show ?thesis by blast
  next
    assume "\<exists>key nonce. getEncryptionKey connection = Some key \<and> aes_NewCipher key = None \<and>
         io_ReadFull (rand_Reader lib) gcm_NonceSize = Inr nonce \<and>
         gcm_Open lib key nonce (gcm_Seal lib key nonce plain) = Inr plain"
    then obtain key nonce where k: "getEncryptionKey connection = Some key"
      and valid: "aes_NewCipher key = None"
      and rd: "io_ReadFull (rand_Reader lib) gcm_NonceSize = Inr nonce"
      and op: "gcm_Open lib key nonce (gcm_Seal lib key nonce plain) = Inr plain"
      by blast
    let ?data = "nonce @ gcm_Seal lib key nonce plain"
    have len: "length nonce = gcm_NonceSize" using rd by (rule io_ReadFull_length)
    have m: "MarshalObject lib connection v = Inr ?data"
      using val k valid rd by (auto simp: MarshalObject_def encrypt_def)
    have nf: "?data \<noteq> ''false''"
    proof
      assume "?data = ''false''"
      then have "length ?data = length ''false''" by (rule arg_cong)
      then show False using len by (simp add: gcm_NonceSize_def)
    qed
    have d: "decrypt lib ?data key = (plain, None)"
      using nf valid len op by (simp add: decrypt_def Let_def)
    have "UnmarshalObject lib connection ?data dest = (None, v)"
      using val k d
      by (auto simp: UnmarshalObject_def split: prod.splits option.splits)
    with m show ?thesis by blast
  qed
qed

theorem MarshalObject_UnmarshalObject_roundtrip_witness:
  "\<exists>data. MarshalObject sample_library encrypted_connection (Val True) = Inr data \<and>
     UnmarshalObject sample_library encrypted_connection data (Val False) = (None, Val True)"
proof (rule MarshalObject_UnmarshalObject_roundtrip [where plain = "''true''"])
  show "getEncryptionKey encrypted_connection = None \<or>
      (\<exists>key nonce. getEncryptionKey encrypted_connection = Some key \<and>
         aes_NewCipher key = None \<and>
         io_ReadFull (rand_Reader sample_library) gcm_NonceSize = Inr nonce \<and>
         gcm_Open sample_library key nonce (gcm_Seal sample_library key nonce ''true'') =
           Inr ''true'')"
    by (simp add: sample_simps io_ReadFull_def gcm_NonceSize_def sample_Open_def
        sample_Seal_def sample_tag_def)
  show "(\<exists>x. Val True = Val x \<and> json_Marshal sample_library (Val True) = Inr ''true'' \<and>
            json_Unmarshal sample_library ''true'' (Val False) = (None, Val True)) \<or>
        (\<exists>s s0. Val True = Str s \<and> ''true'' = s \<and> Val False = Str s0 \<and>
            fst (json_Unmarshal sample_library s (Val False)) \<noteq> None)"
    by (auto simp: sample_simps sample_Marshal_def sample_Unmarshal_def)
qed

text \<open>
  The claim as stated fails on a plain string whose text is itself a JSON string literal:
  the three characters quote, \<open>a\<close>, quote are stored raw, the JSON decoder accepts them,
  and the destination receives the one character \<open>a\<close>.
\<close>

theorem roundtrip_quoted_string_counterexample:
  "MarshalObject sample_library plain_connection (Str [CHR 0x22, CHR ''a'', CHR 0x22]) =
     Inr [CHR 0x22, CHR ''a'', CHR 0x22] \<and>
   UnmarshalObject sample_library plain_connection [CHR 0x22, CHR ''a'', CHR 0x22] (Str []) =
     (None, Str ''a'') \<and>
   Str ''a'' \<noteq> (Str [CHR 0x22, CHR ''a'', CHR 0x22] :: bool object)"
  by (simp add: MarshalObject_def UnmarshalObject_def sample_simps sample_Unmarshal_def
      plain_char_def)

text \<open>
  Claim C4, as amended. For every key of a valid length and every input shorter than the
  nonce other than the literal \<open>false\<close>, \<open>decrypt\<close> returns the dedicated too-short error
  together with its input, whatever the cipher's \<open>Open\<close> would do (it is not consulted),
  and \<open>UnmarshalObject\<close> with that key in effect returns the same error wrapped as
  \<open>Failed decrypting object\<close>, leaving the destination as it was.
\<close>

theorem decrypt_too_short:
  assumes "aes_NewCipher key = None"
    and "length encrypted < gcm_NonceSize"
    and "encrypted \<noteq> ''false''"
  shows "decrypt lib encrypted key = (encrypted, Some errEncryptedStringTooShort) \<and>
         decrypt (lib\<lparr>gcm_Open := other_Open\<rparr>) encrypted key = decrypt lib encrypted key \<and>
         (getEncryptionKey connection = Some key \<longrightarrow>
            UnmarshalObject lib connection encrypted object =
              (Some (Wrap errEncryptedStringTooShort
                 ''Failed decrypting object: encrypted string too short''), object))"
  using assms
  by (simp add: decrypt_def UnmarshalObject_def errors_Wrap_def)

theorem decrypt_too_short_witness:
  "decrypt sample_library ''abc'' sample_key = (''abc'', Some errEncryptedStringTooShort) \<and>
   UnmarshalObject sample_library encrypted_connection ''abc'' (Val False) =
     (Some (Wrap errEncryptedStringTooShort
        ''Failed decrypting object: encrypted string too short''), Val False)"
  using decrypt_too_short [of sample_key "''abc''" sample_library sample_Open
      encrypted_connection "Val False"]
  by (simp add: sample_simps gcm_NonceSize_def)

text \<open>
  The claim as stated fails on the five bytes \<open>false\<close>: \<open>decrypt\<close> tests for this
  literal first and returns it with no error, and \<open>UnmarshalObject\<close> goes on to decode it.
\<close>

theorem decrypt_false_counterexample:
  "aes_NewCipher sample_key = None \<and> length ''false'' < gcm_NonceSize \<and>
   decrypt sample_library ''false'' sample_key = (''false'', None) \<and>
   UnmarshalObject sample_library encrypted_connection ''false'' (Val True) = (None, Val False)"
  by (simp add: decrypt_def UnmarshalObject_def sample_simps gcm_NonceSize_def
      sample_Unmarshal_def)

text \<open>
  What \<open>UnmarshalObject\<close> does when the JSON decoder fails and no key is in effect: into a
  container that is not a string it returns nil, because \<open>errors.Wrap\<close> is given the nil
  error of the decryption step; into a string container it stores the raw bytes.
\<close>

lemma UnmarshalObject_decode_failure_returns_nil:
  assumes "getEncryptionKey connection = None"
    and "json_Unmarshal lib data (Val x) = (Some e, partial)"
  shows "UnmarshalObject lib connection data (Val x) = (None, partial)"
  using assms by (simp add: UnmarshalObject_def errors_Wrap_def)

lemma UnmarshalObject_string_fallback:
  assumes "getEncryptionKey connection = None"
    and "json_Unmarshal lib data (Str s) = (Some e, partial)"
  shows "UnmarshalObject lib connection data (Str s) = (None, Str data)"
  using assms by (simp add: UnmarshalObject_def)

text \<open>
  Claim C5. The claim asks for a non-nil error when the JSON decoder fails and the
  destination is not a string container. The code returns nil there: decoding the bytes
  \<open>xyz\<close> into a bool container with no encryption, and decoding an envelope whose
  plaintext is \<open>xyz\<close> with a key in effect, both return no error and leave the container
  unchanged.
\<close>

theorem UnmarshalObject_swallows_decode_error:
  "fst (json_Unmarshal sample_library ''xyz'' (Val False)) =
     Some (JsonError ''json: not a value for a bool'') \<and>
   UnmarshalObject sample_library plain_connection ''xyz'' (Val False) = (None, Val False) \<and>
   fst (sample_Unmarshal (fst (decrypt sample_library (''0123456789abxyz'' @ sample_tag) sample_key))
          (Val False)) \<noteq> None \<and>
   UnmarshalObject sample_library encrypted_connection (''0123456789abxyz'' @ sample_tag)
     (Val False) = (None, Val False)"
  by (simp add: UnmarshalObject_def decrypt_def sample_simps sample_Unmarshal_def errors_Wrap_def
      gcm_NonceSize_def sample_Open_def sample_tag_def)

section \<open>Properties of \<open>UpdateTx\<close>\<close>

lemma fst_UpdateTx_same_tables:
  assumes "DB c1 = Some d1" and "DB c2 = Some d2"
    and "tables d1 = tables d2" and "fault d1 = fault d2"
  shows "fst (UpdateTx c1 g) = fst (UpdateTx c2 g)"
    and "fst (UpdateTx2 c1 g) = fst (UpdateTx2 c2 g)"
  using assms
  by (auto simp: UpdateTx_def UpdateTx2_def sqlx_Beginx_def sqlx_Commit_def
      split: option.splits prod.splits outcome.splits)

lemma UpdateTx_rolled_back:
  assumes "DB connection = Some db"
    and "fault db Begin = None"
    and "fn \<lparr> tx_tables = tables db, tx_fault = fault db \<rparr> = (out, t)"
    and "out \<noteq> Return None"
  shows "UpdateTx connection fn =
           (out, connection\<lparr>DB := Some (db\<lparr>journal := journal db @ [Rollback]\<rparr>)\<rparr>)"
    and "UpdateTx2 connection fn =
           (out, connection\<lparr>DB := Some (db\<lparr>journal := journal db @ [Rollback]\<rparr>)\<rparr>)"
  using assms
  by (auto simp: UpdateTx_def UpdateTx2_def sqlx_Beginx_def sqlx_Rollback_def
      split: option.splits outcome.splits)

lemma UpdateTx_committed:
  assumes "DB connection = Some db"
    and "fault db Begin = None"
    and "fn \<lparr> tx_tables = tables db, tx_fault = fault db \<rparr> = (Return None, t)"
  shows "UpdateTx connection fn = (Return (fault db Commit), connection\<lparr>DB := Some (snd (sqlx_Commit db t))\<rparr>)"
    and "UpdateTx2 connection fn = (Return (fault db Commit), connection\<lparr>DB := Some (snd (sqlx_Commit db t))\<rparr>)"
  using assms
  by (auto simp: UpdateTx_def UpdateTx2_def sqlx_Beginx_def sqlx_Commit_def
      split: option.splits outcome.splits)

text \<open>
  Claim C2. Once \<open>UpdateTx\<close> has begun a transaction, it ends it with \<open>Commit\<close> exactly
  when the function returns nil, and then returns what \<open>Commit\<close> returns, the tables being
  those the function left when the server accepts the commit. When the function returns an
  error or panics, the transaction is ended with \<open>Rollback\<close>, the committed tables are
  what they were, the function's own error is returned (or its panic raised again with the
  same value), and any function run in a fresh \<open>ViewTx\<close> afterwards gets the result it
  would have got before. This holds for both versions of the connection.
\<close>

theorem UpdateTx_commit_or_rollback:
  assumes "DB connection = Some db"
    and "fault db Begin = None"
    and "fn \<lparr> tx_tables = tables db, tx_fault = fault db \<rparr> = (out, t)"
    and "(upd, view) \<in> {(UpdateTx, ViewTx), (UpdateTx2, ViewTx2)}"
  shows "\<exists>db'. DB (snd (upd connection fn)) = Some db' \<and>
           (out = Return None \<longrightarrow>
              journal db' = journal db @ [Commit] \<and>
              fst (upd connection fn) = Return (fault db Commit) \<and>
              (fault db Commit = None \<longrightarrow> tables db' = tx_tables t)) \<and>
           (out \<noteq> Return None \<longrightarrow>
              journal db' = journal db @ [Rollback] \<and>
              tables db' = tables db \<and> fault db' = fault db \<and>
              fst (upd connection fn) = out \<and>
              fst (view (snd (upd connection fn)) g) = fst (view connection g))"
proof (cases "out = Return None")
  case True
  then show ?thesis
    using assms UpdateTx_committed [of connection db fn t]
    by (auto simp: sqlx_Commit_def split: option.splits)
next
  case False
  let ?c = "connection\<lparr>DB := Some (db\<lparr>journal := journal db @ [Rollback]\<rparr>)\<rparr>"
  have u: "UpdateTx connection fn = (out, ?c)" "UpdateTx2 connection fn = (out, ?c)"
    using UpdateTx_rolled_back [of connection db fn out t] assms False by simp_all
  have v: "fst (UpdateTx ?c g) = fst (UpdateTx connection g)"
    "fst (UpdateTx2 ?c g) = fst (UpdateTx2 connection g)"
    using fst_UpdateTx_same_tables [of ?c "db\<lparr>journal := journal db @ [Rollback]\<rparr>" connection db g]
      assms(1) by simp_all
  show ?thesis
    using False assms(4) u v by (auto simp: ViewTx_def ViewTx2_def)
qed

theorem UpdateTx_commit_or_rollback_witness:
  "\<exists>db'. DB (snd (UpdateTx one_row_connection failing_fn)) = Some db' \<and>
     journal db' = [Rollback] \<and>
     tables db' = [''endpoints'' \<mapsto> [(1, ''{}'')]] \<and>
     fst (UpdateTx one_row_connection failing_fn) = Return (Some (Errorf ''boom''))"
  using UpdateTx_commit_or_rollback
    [of one_row_connection
        "\<lparr> tables = [''endpoints'' \<mapsto> [(1, ''{}'')]], fault = healthy, journal = [] \<rparr>"
        failing_fn "Return (Some (Errorf ''boom''))"
        "\<lparr> tx_tables = [''endpoints'' \<mapsto> []], tx_fault = healthy \<rparr>"
        UpdateTx ViewTx]
  by (auto simp: one_row_connection_def healthy_def failing_fn_def)

section \<open>Properties of identifier allocation\<close>

lemma max_id_Max:
  "max_id rows = (if rows = [] then None else Some (Max (fst ` set rows)))"
proof (cases rows)
  case Nil
  then show ?thesis by (simp add: max_id_def)
next
  case (Cons r rs)
  have "Max (set (fst r # map fst rs)) = fold max (map fst rs) (fst r)"
    by (rule Max.set_eq_fold)
  then show ?thesis using Cons by (simp add: max_id_def)
qed

lemma select_next_id_value:
  assumes "tabs bucketName = Some rows"
    and "refused (Select bucketName) = None"
    and "\<forall>r \<in> set rows. fst r < int4_max"
  shows "select_next_id tabs refused bucketName =
           Inr (if rows = [] then 1 else Max (fst ` set rows) + 1)"
proof (cases "rows = []")
  case True
  then show ?thesis using assms by (simp add: select_next_id_def max_id_Max int4_max_def)
next
  case False
  then have "Max (fst ` set rows) \<in> fst ` set rows" by (intro Max_in) auto
  then have "Max (fst ` set rows) < int4_max" using assms(3) by auto
  then have "\<not> Max (fst ` set rows) + 1 > int4_max" by simp
  then show ?thesis using assms(1,2) False by (simp add: select_next_id_def max_id_Max)
qed

text \<open>
  On a bucket whose table exists, with the statement not refused and every id below the
  largest 32-bit integer, the three variants return the largest id plus one, and 1 for an
  empty bucket. When the statement fails, the context-carrying connection returns 1, the
  older connection and the transaction return 0; none returns an error.
\<close>

lemma GetNextIdentifier_value:
  assumes "tabs bucketName = Some rows"
    and "refused (Select bucketName) = None"
    and "\<forall>r \<in> set rows. fst r < int4_max"
    and "n = (if rows = [] then 1 else Max (fst ` set rows) + 1)"
  shows "DB connection = Some db \<Longrightarrow> tables db = tabs \<Longrightarrow> fault db = refused \<Longrightarrow>
           GetNextIdentifier connection bucketName = Return n \<and>
           GetNextIdentifier2 connection bucketName = Return n"
    and "tx_tables t = tabs \<Longrightarrow> tx_fault t = refused \<Longrightarrow>
           tx_GetNextIdentifier t bucketName = (n, t)"
  using select_next_id_value [of tabs bucketName rows refused] assms
  by (simp_all add: GetNextIdentifier_def GetNextIdentifier2_def tx_GetNextIdentifier_def)

lemma GetNextIdentifier_on_error:
  assumes "select_next_id tabs refused bucketName = Inl err"
  shows "DB connection = Some db \<Longrightarrow> tables db = tabs \<Longrightarrow> fault db = refused \<Longrightarrow>
           GetNextIdentifier connection bucketName = Return 1 \<and>
           GetNextIdentifier2 connection bucketName = Return 0"
    and "tx_tables t = tabs \<Longrightarrow> tx_fault t = refused \<Longrightarrow>
           tx_GetNextIdentifier t bucketName = (0, t)"
  using assms
  by (simp_all add: GetNextIdentifier_def GetNextIdentifier2_def tx_GetNextIdentifier_def)

text \<open>
  Claim C6. The claim asks that the second of two calls of the transaction's
  \<open>GetNextIdentifier\<close> in sequence on one bucket, with nothing in between, is greater than
  the first; the package's own test expects the first plus one. The call only reads and
  leaves the transaction as it found it, so on every transaction and bucket the two calls
  return the same value: on a bucket holding one row with id 1 both return 2.
\<close>

theorem two_GetNextIdentifier_not_increasing:
  "tx_tables one_row_tx ''endpoints'' = Some [(1, ''{}'')] \<and>
   two_GetNextIdentifier one_row_tx ''endpoints'' = (2, 2) \<and>
   snd (tx_GetNextIdentifier t bucketName) = t \<and>
   fst (two_GetNextIdentifier t bucketName) = snd (two_GetNextIdentifier t bucketName) \<and>
   fst (two_GetNextIdentifier t bucketName) + 1 \<noteq> snd (two_GetNextIdentifier t bucketName) \<and>
   \<not> fst (two_GetNextIdentifier t bucketName) < snd (two_GetNextIdentifier t bucketName)"
proof -
  have concrete: "tx_tables one_row_tx ''endpoints'' = Some [(1, ''{}'')] \<and>
      two_GetNextIdentifier one_row_tx ''endpoints'' = (2, 2)"
    by (simp add: two_GetNextIdentifier_def tx_GetNextIdentifier_def select_next_id_def
        one_row_tx_def healthy_def max_id_def int4_max_def)
  have same: "snd (tx_GetNextIdentifier t bucketName) = t \<and>
      fst (two_GetNextIdentifier t bucketName) = snd (two_GetNextIdentifier t bucketName)"
    by (simp add: two_GetNextIdentifier_def tx_GetNextIdentifier_def split: sum.splits)
  show ?thesis using concrete same by simp
qed

text \<open>
  Claim C7. The claim asks for 1 whenever the statement fails. On a bucket whose table does
  not exist the statement fails; the transaction's \<open>GetNextIdentifier\<close> and the one of
  the older connection return 0 there, while the one of the context-carrying connection
  returns 1.
\<close>

theorem GetNextIdentifier_error_fallback:
  "tx_tables one_row_tx ''missing'' = None \<and>
   select_next_id (tx_tables one_row_tx) (tx_fault one_row_tx) ''missing'' =
     Inl (SqlError ''relation does not exist'') \<and>
   tx_GetNextIdentifier one_row_tx ''missing'' = (0, one_row_tx) \<and>
   GetNextIdentifier2 one_row_connection ''missing'' = Return 0 \<and>
   GetNextIdentifier one_row_connection ''missing'' = Return 1"
  by (simp add: tx_GetNextIdentifier_def GetNextIdentifier_def GetNextIdentifier2_def
      select_next_id_def one_row_tx_def one_row_connection_def healthy_def)

section \<open>Properties of the bucket protocol\<close>

lemma string_tx_simps:
  "tx_tables string_tx ''settings'' =
     Some [(''ab'', ''true''), (''a_c'', ''false''), (''b'', ''true'')]"
  "tx_fault string_tx = (\<lambda>_. None)"
  by (simp_all add: string_tx_def healthy_def)



lemma select_data_refused_key:
  assumes "tx_tables t bucketName = Some rows"
    and "tx_fault t (Select bucketName) = None"
    and "id_in key = Inl err"
  shows "select_data id_in t bucketName key = Inl err"
  using assms by (simp add: select_data_def)

lemma serial_tx_simps:
  "tx_tables serial_tx ''endpoints'' = Some [(1, ''true'')]"
  "tx_fault serial_tx = (\<lambda>_. None)"
  by (simp_all add: serial_tx_def healthy_def)


lemma ConvertToKey_1:
  "ConvertToKey 1 = [CHR 0x00, CHR 0x00, CHR 0x00, CHR 0x00, CHR 0x00, CHR 0x00, CHR 0x00, CHR 0x01]"
  by code_simp

lemma int4_in_ConvertToKey_1:
  "int4_in (ConvertToKey 1) = Inl (SqlError ''invalid input syntax for type integer'')"
  unfolding ConvertToKey_1
  by (simp add: int4_in_def pg_space_def pg_digit_def)

lemma ConvertToKey_1234:
  "ConvertToKey 1234 = [CHR 0x00, CHR 0x00, CHR 0x00, CHR 0x00, CHR 0x00, CHR 0x00, CHR 0x04, CHR 0xD2]"
  by code_simp

lemma int4_in_ConvertToKey_1234:
  "int4_in (ConvertToKey 1234) = Inl (SqlError ''invalid input syntax for type integer'')"
  unfolding ConvertToKey_1234
  by (simp add: int4_in_def pg_space_def pg_digit_def)




text \<open>
  The keys that \<open>ConvertToKey\<close> builds are eight raw bytes. On a table with the column
  \<open>id SERIAL\<close> the server does not accept them as an integer, and \<open>GetObject\<close> returns
  the error of the statement, in which \<open>errors.Is\<close> does not find \<open>ErrObjectNotFound\<close>,
  whether a row with that number exists or not.
\<close>

lemma tx_GetObject_ConvertToKey:
  "tx_GetObject sample_library int4_in serial_tx ''endpoints'' (ConvertToKey 1234) (Val False) =
     ((Some (SqlError ''invalid input syntax for type integer''), Val False), serial_tx) \<and>
   \<not> errors_Is (SqlError ''invalid input syntax for type integer'') ErrObjectNotFound \<and>
   tx_GetObject sample_library int4_in serial_tx ''endpoints'' (ConvertToKey 1) (Val False) =
     ((Some (SqlError ''invalid input syntax for type integer''), Val False), serial_tx)"
  by (simp add: tx_GetObject_def select_data_def serial_tx_simps int4_in_ConvertToKey_1234
      int4_in_ConvertToKey_1)

text \<open>
  A scan that returns nil has called the visit function once for every selected row, in row
  order, each time with the object decoded from that row's data; for \<open>GetAll\<close> these are
  all the rows of the bucket. An error of the visit function ends the scan at that row.
\<close>

lemma traced_apply:
  "traced f obj (s, seen) = (case f obj s of (r, s') \<Rightarrow> (r, (s', seen @ [obj])))"
  by (simp add: traced_def)

lemma scan_rows_traced_visits:
  assumes "scan_rows lib (traced f) rows obj (s, seen) = (None, (s', seen'))"
  shows "\<exists>objs. seen' = seen @ objs \<and>
           list_all2 (\<lambda>d v. \<exists>dest. json_Unmarshal lib d dest = (None, v)) rows objs"
  using assms
proof (induction rows arbitrary: obj s seen)
  case Nil
  then show ?case by simp
next
  case (Cons d rest)
  from Cons.prems obtain decoded where dec: "json_Unmarshal lib d obj = (None, decoded)"
    by (auto split: prod.splits option.splits)
  from Cons.prems dec obtain obj' s1 where vis: "f decoded s = ((obj', None), s1)"
    and rest: "scan_rows lib (traced f) rest obj' (s1, seen @ [decoded]) = (None, (s', seen'))"
    by (auto simp: traced_apply split: prod.splits option.splits)
  from Cons.IH [OF rest] obtain objs where
    o: "seen' = (seen @ [decoded]) @ objs"
    and all: "list_all2 (\<lambda>d v. \<exists>dest. json_Unmarshal lib d dest = (None, v)) rest objs"
    by blast
  have "list_all2 (\<lambda>d v. \<exists>dest. json_Unmarshal lib d dest = (None, v)) (d # rest) (decoded # objs)"
    using dec all by auto
  with o show ?case by (intro exI [of _ "decoded # objs"]) simp
qed

lemma scan_rows_visit_error_stops:
  assumes "json_Unmarshal lib d obj = (None, decoded)"
    and "f decoded s = ((obj', Some err), s1)"
  shows "scan_rows lib (traced f) (d # rest) obj (s, seen) = (Some err, (s1, seen @ [decoded]))"
  using assms by (simp add: traced_apply)

lemma tx_GetAll_visits_each_once:
  assumes "tx_tables t bucketName = Some rows"
    and "tx_GetAll lib t bucketName obj (traced f) (s, []) = ((None, (s', seen)), t')"
  shows "length seen = length rows \<and> t' = t \<and>
         list_all2 (\<lambda>r v. \<exists>dest. json_Unmarshal lib (snd r) dest = (None, v)) rows seen"
proof -
  have sel: "select_rows t bucketName (\<lambda>k. True) = Inr (map snd rows)"
    using assms by (auto simp: tx_GetAll_def select_rows_def split: option.splits)
  then have sc: "scan_rows lib (traced f) (map snd rows) obj (s, []) = (None, (s', seen))"
    and t: "t' = t"
    using assms(2) by (simp_all add: tx_GetAll_def)
  from scan_rows_traced_visits [OF sc]
  have "list_all2 (\<lambda>d v. \<exists>dest. json_Unmarshal lib d dest = (None, v)) (map snd rows) seen"
    by simp
  then have "list_all2 (\<lambda>r v. \<exists>dest. json_Unmarshal lib (snd r) dest = (None, v)) rows seen"
    by (simp add: list_all2_map1)
  then show ?thesis using t by (auto dest: list_all2_lengthD)
qed

text \<open>
  For a prefix without \<open>%\<close>, \<open>_\<close> and backslash, the pattern built by
  \<open>GetAllWithKeyPrefix\<close> matches exactly the keys that start with the prefix.
\<close>

lemma sql_like_percent: "sql_like s ''%''"
  by (induction s) simp_all

lemma sql_like_plain_prefix:
  assumes "\<forall>c \<in> set keyPrefix. \<not> like_special c"
  shows "sql_like k (keyPrefix @ ''%'') = prefix keyPrefix k"
  using assms
proof (induction keyPrefix arbitrary: k)
  case Nil
  then show ?case using sql_like_percent by simp
next
  case (Cons c cs)
  then have c: "c \<noteq> CHR ''%''" "c \<noteq> CHR ''_''" "c \<noteq> CHR 0x5C"
    by (auto simp: like_special_def)
  have ih: "\<And>k. sql_like k (cs @ ''%'') = prefix cs k" using Cons by simp
  show ?case
  proof (cases k)
    case Nil
    then show ?thesis using c by simp
  next
    case (Cons x xs)
    then show ?thesis using c ih by auto
  qed
qed

lemma tx_GetAllWithKeyPrefix_plain_prefix:
  assumes "\<forall>c \<in> set keyPrefix. \<not> like_special c"
  shows "select_rows t bucketName (\<lambda>k. sql_like k (keyPrefix @ ''%'')) =
           select_rows t bucketName (prefix keyPrefix)"
  using sql_like_plain_prefix [OF assms] by (simp add: select_rows_def)

text \<open>
  Claim C9. The claim asks that \<open>GetAllWithKeyPrefix\<close> visits the objects whose keys start
  with the prefix, and no others. The prefix goes into the \<open>LIKE\<close> pattern as it is, so an
  underscore in it matches any character: in a bucket with the keys \<open>ab\<close>, \<open>a_c\<close> and
  \<open>b\<close>, the scan for the prefix \<open>a_\<close> visits the objects of \<open>ab\<close> and \<open>a_c\<close>,
  although \<open>ab\<close> does not start with \<open>a_\<close>. \<open>GetAll\<close> on the same bucket visits the
  three objects once each, in row order.
\<close>

theorem tx_GetAllWithKeyPrefix_underscore:
  "tx_tables string_tx ''settings'' =
     Some [(''ab'', ''true''), (''a_c'', ''false''), (''b'', ''true'')] \<and>
   \<not> prefix ''a_'' ''ab'' \<and> sql_like ''ab'' (''a_'' @ ''%'') \<and>
   tx_GetAllWithKeyPrefix sample_library string_tx ''settings'' ''a_'' (Val False)
       (traced collect) ((), []) =
     ((None, ((), [Val True, Val False])), string_tx) \<and>
   tx_GetAll sample_library string_tx ''settings'' (Val False) (traced collect) ((), []) =
     ((None, ((), [Val True, Val False, Val True])), string_tx)"
  by (simp add: tx_GetAllWithKeyPrefix_def tx_GetAll_def select_rows_def string_tx_simps
      sample_simps sample_Unmarshal_def traced_apply collect_def)

section \<open>Properties of the single-table store\<close>

lemma read_only_apply_op:
  "\<not> writeable ptx \<Longrightarrow> apply_op x ptx = (Some (Errorf ''transaction is read-only''), ptx)"
  by (cases x) (simp_all add: Put_def Delete_def Bucket_def)

lemma read_only_run_ops:
  "\<not> writeable ptx \<Longrightarrow>
     run_ops ops ptx = (replicate (length ops) (Some (Errorf ''transaction is read-only'')), ptx)"
  by (induction ops) (simp_all add: read_only_apply_op)

text \<open>
  Claim C10. The transaction that \<open>View\<close> hands to its function is not writeable and has
  executed nothing. \<open>Put\<close> and \<open>Delete\<close> on a transaction that is not writeable return
  the error \<open>transaction is read-only\<close> and the transaction as it was, with no statement
  added to those it executed; so \<open>View\<close> of a \<open>Put\<close> or a \<open>Delete\<close> returns that
  error and leaves the store unchanged, and so does \<open>View\<close> of any list of such writes,
  even when their errors are dropped. In \<open>Update\<close>, on a server that accepts the
  statement and the commit, the same \<open>Put\<close> stores the value and the same \<open>Delete\<close>
  removes the key. The connection with a table per bucket makes no such difference: its
  \<open>ViewTx\<close> is its \<open>UpdateTx\<close>.
\<close>

theorem View_is_read_only:
  assumes "db_fault s Begin = None"
  shows "View s (\<lambda>ptx. Put (Bucket ptx name) key val) =
           (Some (Errorf ''transaction is read-only''), s) \<and>
         View s (\<lambda>ptx. Delete (Bucket ptx name) key) =
           (Some (Errorf ''transaction is read-only''), s) \<and>
         View s (\<lambda>ptx. (if writeable ptx \<or> executed (sql_tx ptx) \<noteq> [] then None
                          else Some (Errorf ''fresh read-only transaction''), ptx)) =
           (Some (Errorf ''fresh read-only transaction''), s) \<and>
         (\<forall>ptx. \<not> writeable ptx \<longrightarrow>
            Put (Bucket ptx name) key val = (Some (Errorf ''transaction is read-only''), ptx) \<and>
            Delete (Bucket ptx name) key = (Some (Errorf ''transaction is read-only''), ptx)) \<and>
         snd (View s (ignore_errors ops)) = s \<and>
         (db_fault s (Exec portainer_buckets) = None \<and> db_fault s Commit = None \<longrightarrow>
            Update s (\<lambda>ptx. Put (Bucket ptx name) key val) =
              (None, s\<lparr>db_rows := (db_rows s)((name, key) \<mapsto> val)\<rparr>) \<and>
            Update s (\<lambda>ptx. Delete (Bucket ptx name) key) =
              (None, s\<lparr>db_rows := (db_rows s)((name, key) := None)\<rparr>)) \<and>
         ViewTx connection f = UpdateTx connection f \<and>
         ViewTx2 connection f = UpdateTx2 connection f"
proof -
  let ?st = "\<lparr> pending_rows = db_rows s, stmt_fault = db_fault s, executed = [] \<rparr>"
  have b: "store_Begin s = Inr ?st" using assms by (simp add: store_Begin_def)
  have v: "View s (\<lambda>ptx. Put (Bucket ptx name) key val) =
             (Some (Errorf ''transaction is read-only''), s)"
    "View s (\<lambda>ptx. Delete (Bucket ptx name) key) =
             (Some (Errorf ''transaction is read-only''), s)"
    "View s (\<lambda>ptx. (if writeable ptx \<or> executed (sql_tx ptx) \<noteq> [] then None
                          else Some (Errorf ''fresh read-only transaction''), ptx)) =
           (Some (Errorf ''fresh read-only transaction''), s)"
    using b by (simp_all add: View_def Put_def Delete_def Bucket_def)
  have ro: "\<forall>ptx. \<not> writeable ptx \<longrightarrow>
            Put (Bucket ptx name) key val = (Some (Errorf ''transaction is read-only''), ptx) \<and>
            Delete (Bucket ptx name) key = (Some (Errorf ''transaction is read-only''), ptx)"
    by (simp add: Put_def Delete_def Bucket_def)
  have ig: "snd (View s (ignore_errors ops)) = s"
    using b
    by (simp add: View_def ignore_errors_def read_only_run_ops store_Commit_def
        split: option.splits)
  have u: "db_fault s (Exec portainer_buckets) = None \<and> db_fault s Commit = None \<longrightarrow>
            Update s (\<lambda>ptx. Put (Bucket ptx name) key val) =
              (None, s\<lparr>db_rows := (db_rows s)((name, key) \<mapsto> val)\<rparr>) \<and>
            Update s (\<lambda>ptx. Delete (Bucket ptx name) key) =
              (None, s\<lparr>db_rows := (db_rows s)((name, key) := None)\<rparr>)"
    using b
    by (simp add: Update_def Put_def Delete_def Bucket_def sql_Exec_def store_Commit_def)
  show ?thesis using v ro ig u by (simp add: ViewTx_def ViewTx2_def)
qed

theorem View_is_read_only_witness:
  "View healthy_store (\<lambda>ptx. Put (Bucket ptx ''settings'') ''k'' ''new'') =
     (Some (Errorf ''transaction is read-only''), healthy_store) \<and>
   Update healthy_store (\<lambda>ptx. Put (Bucket ptx ''settings'') ''k'' ''new'') =
     (None, healthy_store\<lparr>db_rows := (db_rows healthy_store)((''settings'', ''k'') \<mapsto> ''new'')\<rparr>) \<and>
   Put (Bucket \<lparr> sql_tx = \<lparr> pending_rows = db_rows healthy_store, stmt_fault = healthy,
                             executed = [] \<rparr>, writeable = False \<rparr> ''settings'') ''k'' ''new'' =
     (Some (Errorf ''transaction is read-only''),
      \<lparr> sql_tx = \<lparr> pending_rows = db_rows healthy_store, stmt_fault = healthy,
                   executed = [] \<rparr>, writeable = False \<rparr>)"
  using View_is_read_only
    [of healthy_store "''settings''" "''k''" "''new''" "[]" plain_connection failing_fn]
  by (simp add: healthy_store_def healthy_def)

end
